theory Spec2Isabelle
  imports Complex_Main
begin

section \<open>Values shared by the service and the harness\<close>

text \<open>
  Both programs exchange JSON. A decoded JSON value is a Python object: \<open>None\<close>, a
  \<open>bool\<close>, an \<open>int\<close>, a \<open>float\<close>, a \<open>str\<close>, a \<open>list\<close> or a \<open>dict\<close>. A dict is an
  association list in insertion order; a lookup takes the entry of the key.
\<close>

datatype json =
    JNull
  | JBool bool
  | JInt int
  | JFloat real
  | JStr string
  | JList "json list"
  | JDict "(string \<times> json) list"

type_synonym dict = "(string \<times> json) list"

text \<open>\<open>d.get(key, default)\<close> of a Python dict.\<close>

definition dict_get :: "dict \<Rightarrow> string \<Rightarrow> json \<Rightarrow> json" where
  "dict_get d key dflt = (case map_of d key of None \<Rightarrow> dflt | Some v \<Rightarrow> v)"

text \<open>
  \<open>{**d, key: v}\<close>: the key keeps its place when \<open>d\<close> has it, and is appended otherwise.
\<close>

fun dict_set :: "dict \<Rightarrow> string \<Rightarrow> json \<Rightarrow> dict" where
  "dict_set [] key v = [(key, v)]"
| "dict_set ((k, x) # d) key v =
     (if k = key then (k, v) # d else (k, x) # dict_set d key v)"

definition keys :: "dict \<Rightarrow> string list" where
  "keys d = map fst d"

text \<open>
  A call into code outside the repository either returns a value or raises an
  \<open>Exception\<close> (the class both programs catch).
\<close>

datatype 'a outcome = Returns 'a | Raises

section \<open>The query service (backend/main.py)\<close>

subsection \<open>Configuration and request model\<close>

record Settings =
  OPENAI_API_KEY :: string
  OPENAI_MODEL_NAME :: string
  DOCUMENT_DIR :: string
  MAX_CHUNK_SIZE :: int
  MAX_CHUNK_OVERLAP :: int

text \<open>The values of \<open>Literal["gpt-3.5-turbo", "gpt-4"]\<close>.\<close>

definition MODEL_NAMES :: "string list" where
  "MODEL_NAMES = [''gpt-3.5-turbo'', ''gpt-4'']"

record QueryRequest =
  question :: string
  chunk_size :: int
  chunk_overlap :: int
  model :: string

record QueryResponse =
  answer :: string
  latency :: real

text \<open>
  What a call of the endpoint ends with when it does not return a response: the
  \<open>HTTPException\<close> the handler raises, with its status code and detail, or the
  validation error the framework raises for a body the request model refuses, which
  it answers with status 422 and the names of the refused fields.
\<close>

datatype http_error =
    HTTPException nat string
  | RequestValidationError "string list"

fun status_code :: "http_error \<Rightarrow> nat" where
  "status_code (HTTPException code detail) = code"
| "status_code (RequestValidationError refused) = 422"

definition is_client_error :: "nat \<Rightarrow> bool" where
  "is_client_error code = (400 \<le> code \<and> code < 500)"

definition is_server_error :: "nat \<Rightarrow> bool" where
  "is_server_error code = (500 \<le> code \<and> code < 600)"

subsection \<open>The environment of one request\<close>

text \<open>
  The file system as \<open>os.path.isdir\<close> and the document reader see it: a path is
  missing, or it names an entry that is a directory or not, and that the process may
  read or not. \<open>os.path.isdir\<close> asks for the entry's kind only; it does not open it.
\<close>

datatype fs_entry = Missing | Entry (is_directory: bool) (readable: bool)

fun os_path_isdir :: "(string \<Rightarrow> fs_entry) \<Rightarrow> string \<Rightarrow> bool" where
  "os_path_isdir fs path = (case fs path of Missing \<Rightarrow> False | Entry d r \<Rightarrow> d)"

text \<open>
  The calls into the retrieval library and the hosted model, in the order the handler
  makes them. The handler keeps no state of its own; the log of calls is the only
  effect the model tracks.
\<close>

datatype call =
    Load_data string
  | OpenAI_init string
  | ServiceContext_from_defaults int int
  | VectorStoreIndex_from_documents
  | As_query_engine
  | Query string
  | Str_of_result

text \<open>
  The library's objects are opaque values of one type \<open>'obj\<close>. Each library call
  is a function of the environment that returns or raises. \<open>perf_counter k\<close> is the
  \<open>k\<close>-th reading of \<open>time.perf_counter()\<close> during the request; \<open>to_int\<close> and
  \<open>to_str\<close> are the request model's conversions of a JSON value that is not already
  of the field's type (a numeric string for an integer field, say), which belong to
  the validation library.
\<close>

record 'obj env =
  fs :: "string \<Rightarrow> fs_entry"
  perf_counter :: "nat \<Rightarrow> real"
  to_int :: "json \<Rightarrow> int option"
  to_str :: "json \<Rightarrow> string option"
  load_data :: "string \<Rightarrow> 'obj outcome"
  OpenAI :: "string \<Rightarrow> 'obj outcome"
  from_defaults :: "'obj \<Rightarrow> int \<Rightarrow> int \<Rightarrow> 'obj outcome"
  from_documents :: "'obj \<Rightarrow> 'obj \<Rightarrow> 'obj outcome"
  as_query_engine :: "'obj \<Rightarrow> 'obj outcome"
  query :: "'obj \<Rightarrow> string \<Rightarrow> 'obj outcome"
  str_of :: "'obj \<Rightarrow> string outcome"

subsection \<open>Validation by the request model\<close>

text \<open>
  One field of \<open>QueryRequest\<close>: the value of the body's key, converted to the
  field's type. An integer stays as it is and a string stays as it is; any other
  value goes through the library's conversion. A \<open>Literal\<close> field takes only a
  value equal to one of its strings.
\<close>

definition int_field :: "'obj env \<Rightarrow> json \<Rightarrow> int option" where
  "int_field e v = (case v of JInt i \<Rightarrow> Some i | _ \<Rightarrow> to_int e v)"

definition str_field :: "'obj env \<Rightarrow> json \<Rightarrow> string option" where
  "str_field e v = (case v of JStr s \<Rightarrow> Some s | _ \<Rightarrow> to_str e v)"

definition literal_field :: "json \<Rightarrow> string option" where
  "literal_field v =
     (case v of JStr s \<Rightarrow> (if s \<in> set MODEL_NAMES then Some s else None) | _ \<Rightarrow> None)"

text \<open>
  \<open>question\<close> is required and has \<open>min_length=1\<close>; \<open>chunk_size\<close> has default 512
  and bounds \<open>ge=1\<close>, \<open>le=MAX_CHUNK_SIZE\<close>; \<open>chunk_overlap\<close> has default 50 and bounds
  \<open>ge=0\<close>, \<open>le=MAX_CHUNK_OVERLAP\<close>; \<open>model\<close> has the configured model as default. A
  default is taken as it is, without being checked against the bounds.
\<close>

definition validate_question :: "'obj env \<Rightarrow> dict \<Rightarrow> string option" where
  "validate_question e body =
     (case map_of body ''question'' of
        None \<Rightarrow> None
      | Some v \<Rightarrow>
          (case str_field e v of
             None \<Rightarrow> None
           | Some s \<Rightarrow> if 1 \<le> length s then Some s else None))"

definition validate_chunk_size :: "Settings \<Rightarrow> 'obj env \<Rightarrow> dict \<Rightarrow> int option" where
  "validate_chunk_size settings e body =
     (case map_of body ''chunk_size'' of
        None \<Rightarrow> Some 512
      | Some v \<Rightarrow>
          (case int_field e v of
             None \<Rightarrow> None
           | Some i \<Rightarrow> if 1 \<le> i \<and> i \<le> MAX_CHUNK_SIZE settings then Some i else None))"

definition validate_chunk_overlap :: "Settings \<Rightarrow> 'obj env \<Rightarrow> dict \<Rightarrow> int option" where
  "validate_chunk_overlap settings e body =
     (case map_of body ''chunk_overlap'' of
        None \<Rightarrow> Some 50
      | Some v \<Rightarrow>
          (case int_field e v of
             None \<Rightarrow> None
           | Some i \<Rightarrow> if 0 \<le> i \<and> i \<le> MAX_CHUNK_OVERLAP settings then Some i else None))"

definition validate_model :: "Settings \<Rightarrow> dict \<Rightarrow> string option" where
  "validate_model settings body =
     (case map_of body ''model'' of
        None \<Rightarrow> Some (OPENAI_MODEL_NAME settings)
      | Some v \<Rightarrow> literal_field v)"

text \<open>
  The request model checks every field and reports all refused fields together.
\<close>

definition refused_fields :: "Settings \<Rightarrow> 'obj env \<Rightarrow> dict \<Rightarrow> string list" where
  "refused_fields settings e body =
     (if validate_question e body = None then [''question''] else []) @
     (if validate_chunk_size settings e body = None then [''chunk_size''] else []) @
     (if validate_chunk_overlap settings e body = None then [''chunk_overlap''] else []) @
     (if validate_model settings body = None then [''model''] else [])"

definition validate_QueryRequest ::
  "Settings \<Rightarrow> 'obj env \<Rightarrow> dict \<Rightarrow> http_error + QueryRequest" where
  "validate_QueryRequest settings e body =
     (case (validate_question e body, validate_chunk_size settings e body,
            validate_chunk_overlap settings e body, validate_model settings body) of
        (Some q, Some cs, Some co, Some m) \<Rightarrow>
          Inr \<lparr>question = q, chunk_size = cs, chunk_overlap = co, model = m\<rparr>
      | _ \<Rightarrow> Inl (RequestValidationError (refused_fields settings e body)))"

subsection \<open>The handler\<close>

text \<open>
  Step 2 of \<open>query_llm\<close>: the body of the second \<open>try\<close>. Every call is logged when
  it is made; the first one that raises ends the block.
\<close>

definition rag_pipeline ::
  "'obj env \<Rightarrow> QueryRequest \<Rightarrow> 'obj \<Rightarrow> string outcome \<times> call list" where
  "rag_pipeline e request documents =
     (case OpenAI e (model request) of
        Raises \<Rightarrow> (Raises, [OpenAI_init (model request)])
      | Returns llm \<Rightarrow>
     (case from_defaults e llm (chunk_size request) (chunk_overlap request) of
        Raises \<Rightarrow>
          (Raises,
           [OpenAI_init (model request),
            ServiceContext_from_defaults (chunk_size request) (chunk_overlap request)])
      | Returns svc_ctx \<Rightarrow>
     (case from_documents e documents svc_ctx of
        Raises \<Rightarrow>
          (Raises,
           [OpenAI_init (model request),
            ServiceContext_from_defaults (chunk_size request) (chunk_overlap request),
            VectorStoreIndex_from_documents])
      | Returns index \<Rightarrow>
     (case as_query_engine e index of
        Raises \<Rightarrow>
          (Raises,
           [OpenAI_init (model request),
            ServiceContext_from_defaults (chunk_size request) (chunk_overlap request),
            VectorStoreIndex_from_documents, As_query_engine])
      | Returns query_engine \<Rightarrow>
     (case query e query_engine (question request) of
        Raises \<Rightarrow>
          (Raises,
           [OpenAI_init (model request),
            ServiceContext_from_defaults (chunk_size request) (chunk_overlap request),
            VectorStoreIndex_from_documents, As_query_engine, Query (question request)])
      | Returns result \<Rightarrow>
          (str_of e result,
           [OpenAI_init (model request),
            ServiceContext_from_defaults (chunk_size request) (chunk_overlap request),
            VectorStoreIndex_from_documents, As_query_engine, Query (question request),
            Str_of_result]))))))"

text \<open>
  \<open>query_llm\<close>: the result of the call and the library calls it made. \<open>t0\<close> is read
  first; the latency is the second reading minus \<open>t0\<close>.
\<close>

definition query_llm ::
  "Settings \<Rightarrow> 'obj env \<Rightarrow> QueryRequest \<Rightarrow> (http_error + QueryResponse) \<times> call list" where
  "query_llm settings e request =
     (let t0 = perf_counter e 0;
          doc_dir = DOCUMENT_DIR settings
      in if \<not> os_path_isdir (fs e) doc_dir
         then (Inl (HTTPException 500 ''Document directory not found''), [])
         else
           (case load_data e doc_dir of
              Raises \<Rightarrow> (Inl (HTTPException 500 ''Could not read documents''), [Load_data doc_dir])
            | Returns documents \<Rightarrow>
                (case rag_pipeline e request documents of
                   (Raises, calls) \<Rightarrow>
                     (Inl (HTTPException 500 ''Failed to generate answer''),
                      Load_data doc_dir # calls)
                 | (Returns a, calls) \<Rightarrow>
                     (Inr \<lparr>answer = a, latency = perf_counter e 1 - t0\<rparr>,
                      Load_data doc_dir # calls))))"

text \<open>
  \<open>POST /query\<close>: the framework builds the \<open>QueryRequest\<close> from the body and calls the
  handler only when the model accepts it.
\<close>

definition post_query ::
  "Settings \<Rightarrow> 'obj env \<Rightarrow> dict \<Rightarrow> (http_error + QueryResponse) \<times> call list" where
  "post_query settings e body =
     (case validate_QueryRequest settings e body of
        Inl err \<Rightarrow> (Inl err, [])
      | Inr request \<Rightarrow> query_llm settings e request)"

section \<open>The evaluation harness (backend/eval.py)\<close>

subsection \<open>Reference queries\<close>

record TestQuery =
  question :: string
  expected :: string

definition TEST_QUERIES :: "TestQuery list" where
  "TEST_QUERIES =
     [\<lparr>question = ''What is the candidate's experience with Python?'',
       expected = ''The candidate has experience with Python in projects at Temenos and Thomson Reuters.''\<rparr>,
      \<lparr>question = ''Where is the candidate studying?'',
       expected = ''The candidate is pursuing an MS in Computer Science at San Jose State University.''\<rparr>]"

subsection \<open>Whitespace tokenisation\<close>

text \<open>
  \<open>s.split()\<close> with no argument: the maximal runs of characters that are not
  whitespace, in order. The whitespace characters of \<open>str.isspace\<close> below code 256
  are 9 to 13, 28 to 32, 133 and 160.
\<close>

definition is_space :: "char \<Rightarrow> bool" where
  "is_space c =
     (let n = (of_char c :: nat)
      in (9 \<le> n \<and> n \<le> 13) \<or> (28 \<le> n \<and> n \<le> 32) \<or> n = 133 \<or> n = 160)"

fun split_from :: "string \<Rightarrow> string \<Rightarrow> string list" where
  "split_from word [] = (if word = [] then [] else [word])"
| "split_from word (c # cs) =
     (if is_space c
      then (if word = [] then split_from [] cs else word # split_from [] cs)
      else split_from (word @ [c]) cs)"

definition py_split :: "string \<Rightarrow> string list" where
  "py_split s = split_from [] s"

subsection \<open>The environment of a run\<close>

text \<open>
  A response of the endpoint as \<open>requests\<close> hands it over: the status code, and the
  body as \<open>resp.json()\<close> decodes it (\<open>None\<close> when the body is not JSON, in which case
  \<open>resp.json()\<close> raises).
\<close>

datatype response = Response nat "json option"

text \<open>
  \<open>post k endpoint payload\<close> is what the \<open>k\<close>-th call of \<open>requests.post\<close> in the run
  does: it raises (no connection, say) or returns a response. \<open>sentence_bleu\<close> is
  the scoring function of the language toolkit with the fourth smoothing method,
  applied to the list of reference token lists and the answer's tokens. \<open>strftime\<close>
  is the time stamp of the run and \<open>can_open\<close> says whether a file can be opened for
  writing.
\<close>

record harness_env =
  post :: "nat \<Rightarrow> string \<Rightarrow> dict \<Rightarrow> response outcome"
  sentence_bleu :: "string list list \<Rightarrow> string list \<Rightarrow> real outcome"
  strftime :: string
  can_open :: "string \<Rightarrow> bool"

text \<open>
  The exceptions that leave \<open>evaluate\<close> or \<open>main\<close>: a method looked up on an object
  that does not have it, an exception raised inside the scoring function, and a file
  that cannot be opened.
\<close>

datatype py_exception = AttributeError | Scoring_exception | OSError

subsection \<open>One call\<close>

text \<open>\<open>resp.raise_for_status()\<close> raises for a status from 400 to 599.\<close>

definition raise_for_status_raises :: "nat \<Rightarrow> bool" where
  "raise_for_status_raises code = (400 \<le> code \<and> code < 600)"

text \<open>
  The \<open>try\<close> block of \<open>evaluate\<close>: post, check the status, decode the body. Any
  exception in it is caught.
\<close>

definition request_json :: "harness_env \<Rightarrow> nat \<Rightarrow> string \<Rightarrow> dict \<Rightarrow> json outcome" where
  "request_json h k endpoint payload =
     (case post h k endpoint payload of
        Raises \<Rightarrow> Raises
      | Returns (Response code decoded) \<Rightarrow>
          (if raise_for_status_raises code then Raises
           else (case decoded of None \<Rightarrow> Raises | Some data \<Rightarrow> Returns data)))"

definition make_payload :: "string \<Rightarrow> int \<Rightarrow> int \<Rightarrow> dict" where
  "make_payload question' chunk_size' chunk_overlap' =
     [(''question'', JStr question'),
      (''chunk_size'', JInt chunk_size'),
      (''chunk_overlap'', JInt chunk_overlap')]"

text \<open>
  The record of a failed call.
\<close>

definition failure_record :: "int \<Rightarrow> dict" where
  "failure_record chunk_size' =
     [(''chunk_size'', JInt chunk_size'), (''latency'', JNull),
      (''bleu'', JFloat 0), (''answer'', JStr [])]"

text \<open>
  \<open>evaluate\<close>. \<open>sent\<close> is the list of requests posted so far in the run, each with
  its endpoint and payload; the call appends its own. The result is the returned
  dict, or the exception that leaves the function.
\<close>

definition evaluate ::
  "harness_env \<Rightarrow> (string \<times> dict) list \<Rightarrow> string \<Rightarrow> string \<Rightarrow> int \<Rightarrow> int \<Rightarrow> string
     \<Rightarrow> (py_exception + dict) \<times> (string \<times> dict) list" where
  "evaluate h sent question' expected' chunk_size' chunk_overlap' endpoint =
     (let payload = make_payload question' chunk_size' chunk_overlap';
          sent' = sent @ [(endpoint, payload)]
      in case request_json h (length sent) endpoint payload of
           Raises \<Rightarrow> (Inr (failure_record chunk_size'), sent')
         | Returns data \<Rightarrow>
             (case data of
                JDict d \<Rightarrow>
                  (let latency' = dict_get d ''latency'' JNull;
                       answer' = dict_get d ''answer'' (JStr [])
                   in case answer' of
                        JStr a \<Rightarrow>
                          (case sentence_bleu h [py_split expected'] (py_split a) of
                             Raises \<Rightarrow> (Inl Scoring_exception, sent')
                           | Returns bleu \<Rightarrow>
                               (Inr [(''chunk_size'', JInt chunk_size'), (''latency'', latency'),
                                     (''bleu'', JFloat bleu), (''answer'', answer')],
                                sent'))
                      | _ \<Rightarrow> (Inl AttributeError, sent'))
              | _ \<Rightarrow> (Inl AttributeError, sent')))"

subsection \<open>The sweep\<close>

text \<open>
  The inner loop of \<open>main\<close>, over the reference queries for one chunk size. Each
  call uses the default overlap and the default endpoint. A result is appended with
  its question; an exception from \<open>evaluate\<close> is not caught and ends the loop. The
  log line written after each call has no effect on the results.
\<close>

fun for_queries ::
  "harness_env \<Rightarrow> int \<Rightarrow> TestQuery list \<Rightarrow> dict list \<times> (string \<times> dict) list
     \<Rightarrow> (py_exception + dict list) \<times> (string \<times> dict) list" where
  "for_queries h cs [] (results, sent) = (Inr results, sent)"
| "for_queries h cs (tq # tqs) (results, sent) =
     (case evaluate h sent (question tq) (expected tq) cs 50 ''http://localhost:8000/query'' of
        (Inl exn, sent') \<Rightarrow> (Inl exn, sent')
      | (Inr res, sent') \<Rightarrow>
          for_queries h cs tqs
            (results @ [dict_set res ''question'' (JStr (question tq))], sent'))"

text \<open>The outer loop, over the chunk sizes.\<close>

fun for_chunk_sizes ::
  "harness_env \<Rightarrow> int list \<Rightarrow> TestQuery list \<Rightarrow> dict list \<times> (string \<times> dict) list
     \<Rightarrow> (py_exception + dict list) \<times> (string \<times> dict) list" where
  "for_chunk_sizes h [] tqs (results, sent) = (Inr results, sent)"
| "for_chunk_sizes h (cs # css) tqs (results, sent) =
     (case for_queries h cs tqs (results, sent) of
        (Inl exn, sent') \<Rightarrow> (Inl exn, sent')
      | (Inr results', sent') \<Rightarrow> for_chunk_sizes h css tqs (results', sent'))"

text \<open>
  \<open>main\<close>: the sweep over the chunk sizes 256, 512 and 1024, then the result file.
  The value is the file written (its name and its content) or the exception that
  ends the run, together with the requests posted.
\<close>

definition main ::
  "harness_env \<Rightarrow> (py_exception + string \<times> json) \<times> (string \<times> dict) list" where
  "main h =
     (case for_chunk_sizes h [256, 512, 1024] TEST_QUERIES ([], []) of
        (Inl exn, sent) \<Rightarrow> (Inl exn, sent)
      | (Inr results, sent) \<Rightarrow>
          (let ts = strftime h;
               out_file = ''eval_results_'' @ ts @ ''.json''
           in if can_open h out_file
              then (Inr (out_file, JList (map JDict results)), sent)
              else (Inl OSError, sent)))"

section \<open>Notions used in the statements\<close>

text \<open>
  A document source that does not exist or is not readable.
\<close>

fun source_unavailable :: "fs_entry \<Rightarrow> bool" where
  "source_unavailable Missing = True"
| "source_unavailable (Entry d r) = (\<not> r)"

text \<open>
  A call of the endpoint that fails: the post raises, the status is one that
  \<open>raise_for_status\<close> raises for, or the body does not decode.
\<close>

fun call_fails :: "response outcome \<Rightarrow> bool" where
  "call_fails Raises = True"
| "call_fails (Returns (Response code decoded)) =
     (raise_for_status_raises code \<or> decoded = None)"

fun is_str :: "json \<Rightarrow> bool" where
  "is_str (JStr s) = True"
| "is_str v = False"

text \<open>
  The record \<open>main\<close> keeps for a failed call, and the request \<open>main\<close> posts for a
  chunk size and a reference query.
\<close>

definition tagged_failure :: "int \<Rightarrow> TestQuery \<Rightarrow> dict" where
  "tagged_failure cs tq =
     [(''chunk_size'', JInt cs), (''latency'', JNull), (''bleu'', JFloat 0),
      (''answer'', JStr []), (''question'', JStr (question tq))]"

definition planned_request :: "int \<Rightarrow> TestQuery \<Rightarrow> string \<times> dict" where
  "planned_request cs tq =
     (''http://localhost:8000/query'', make_payload (question tq) cs 50)"

definition planned_requests :: "int list \<Rightarrow> TestQuery list \<Rightarrow> (string \<times> dict) list" where
  "planned_requests css tqs = concat (map (\<lambda>cs. map (planned_request cs) tqs) css)"

subsection \<open>Sample configuration and environments\<close>

text \<open>
  The configuration with the default values of \<open>Settings\<close>, a service environment
  whose document directory is a given entry and whose library calls succeed once the
  documents are loaded, and a harness environment whose endpoint always gives the
  same reply.
\<close>

definition default_settings :: Settings where
  "default_settings =
     \<lparr>OPENAI_API_KEY = ''sk-test'', OPENAI_MODEL_NAME = ''gpt-3.5-turbo'',
      DOCUMENT_DIR = ''documents'', MAX_CHUNK_SIZE = 2048, MAX_CHUNK_OVERLAP = 1024\<rparr>"

definition stub_env :: "fs_entry \<Rightarrow> string outcome \<Rightarrow> string env" where
  "stub_env entry loaded =
     \<lparr>fs = (\<lambda>path. if path = ''documents'' then entry else Missing),
      perf_counter = (\<lambda>k. real k),
      to_int = (\<lambda>v. None),
      to_str = (\<lambda>v. None),
      load_data = (\<lambda>path. loaded),
      OpenAI = (\<lambda>m. Returns m),
      from_defaults = (\<lambda>llm cs co. Returns llm),
      from_documents = (\<lambda>docs ctx. Returns docs),
      as_query_engine = (\<lambda>index. Returns index),
      query = (\<lambda>engine q. Returns engine),
      str_of = (\<lambda>result. Returns result)\<rparr>"

definition sample_body :: dict where
  "sample_body =
     [(''question'', JStr ''Where is the candidate studying?''),
      (''chunk_size'', JInt 512), (''chunk_overlap'', JInt 50),
      (''model'', JStr ''gpt-3.5-turbo'')]"

definition sample_request :: QueryRequest where
  "sample_request =
     \<lparr>QueryRequest.question = ''Where is the candidate studying?'', chunk_size = 512,
      chunk_overlap = 50, model = ''gpt-3.5-turbo''\<rparr>"

definition stub_harness :: "response outcome \<Rightarrow> real outcome \<Rightarrow> harness_env" where
  "stub_harness reply score =
     \<lparr>post = (\<lambda>k endpoint payload. reply),
      sentence_bleu = (\<lambda>references hypothesis. score),
      strftime = ''20240101-120000'',
      can_open = (\<lambda>path. True)\<rparr>"

section \<open>Facts about the query service\<close>

lemma accepted_request_outcome:
  assumes acc: "validate_QueryRequest settings e body = Inr request"
    and clock: "mono (perf_counter e)"
  shows "(\<exists>resp. fst (post_query settings e body) = Inr resp \<and> 0 \<le> latency resp)
       \<or> (\<exists>detail. fst (post_query settings e body) = Inl (HTTPException 500 detail))"
proof -
  have le: "perf_counter e 0 \<le> perf_counter e 1"
    using clock by (simp add: mono_def)
  show ?thesis
    using le acc
    by (auto simp: post_query_def query_llm_def Let_def split: outcome.splits prod.splits)
qed

lemma validate_explicit:
  assumes "map_of body ''question'' = Some (JStr q)" "q \<noteq> []"
    and "map_of body ''chunk_size'' = Some (JInt cs)" "1 \<le> cs" "cs \<le> MAX_CHUNK_SIZE settings"
    and "map_of body ''chunk_overlap'' = Some (JInt co)" "0 \<le> co" "co \<le> MAX_CHUNK_OVERLAP settings"
    and "map_of body ''model'' = Some (JStr m)" "m \<in> set MODEL_NAMES"
  shows "validate_QueryRequest settings e body =
           Inr \<lparr>QueryRequest.question = q, chunk_size = cs, chunk_overlap = co, model = m\<rparr>"
  using assms
  by (cases q) (simp_all add: validate_QueryRequest_def validate_question_def
      validate_chunk_size_def validate_chunk_overlap_def validate_model_def int_field_def
      str_field_def literal_field_def)

lemma sample_body_fields:
  "map_of sample_body ''question'' = Some (JStr ''Where is the candidate studying?'')"
  "map_of sample_body ''chunk_size'' = Some (JInt 512)"
  "map_of sample_body ''chunk_overlap'' = Some (JInt 50)"
  "map_of sample_body ''model'' = Some (JStr ''gpt-3.5-turbo'')"
  by (simp_all add: sample_body_def)

lemma stub_env_clock: "mono (perf_counter (stub_env entry loaded))"
  by (simp add: stub_env_def mono_def)

text \<open>
  C1. A body whose four fields are present and valid (a non-empty question, a chunk
  size from 1 to \<open>MAX_CHUNK_SIZE\<close>, an overlap from 0 to \<open>MAX_CHUNK_OVERLAP\<close>, one of
  the two model names) is answered, with a clock that does not run backwards, either
  by a response whose latency is not negative (its answer is a string), or by an
  error whose status is a server error and not a client error.
\<close>

theorem valid_request_never_client_error:
  assumes "map_of body ''question'' = Some (JStr q)" "q \<noteq> []"
    and "map_of body ''chunk_size'' = Some (JInt cs)" "1 \<le> cs" "cs \<le> MAX_CHUNK_SIZE settings"
    and "map_of body ''chunk_overlap'' = Some (JInt co)" "0 \<le> co" "co \<le> MAX_CHUNK_OVERLAP settings"
    and "map_of body ''model'' = Some (JStr m)" "m \<in> set MODEL_NAMES"
    and clock: "mono (perf_counter e)"
  shows "(\<exists>resp. fst (post_query settings e body) = Inr resp \<and> 0 \<le> latency resp)
       \<or> (\<exists>err. fst (post_query settings e body) = Inl err
              \<and> is_server_error (status_code err) \<and> \<not> is_client_error (status_code err))"
proof -
  from assms have "validate_QueryRequest settings e body =
      Inr \<lparr>QueryRequest.question = q, chunk_size = cs, chunk_overlap = co, model = m\<rparr>"
    by (intro validate_explicit)
  from accepted_request_outcome [OF this clock] show ?thesis
    by (auto simp: is_server_error_def is_client_error_def)
qed

theorem valid_request_never_client_error_witness:
  "map_of sample_body ''question'' = Some (JStr ''Where is the candidate studying?'')
   \<and> map_of sample_body ''chunk_size'' = Some (JInt 512)
   \<and> (512::int) \<le> MAX_CHUNK_SIZE default_settings
   \<and> map_of sample_body ''chunk_overlap'' = Some (JInt 50)
   \<and> (50::int) \<le> MAX_CHUNK_OVERLAP default_settings
   \<and> map_of sample_body ''model'' = Some (JStr ''gpt-3.5-turbo'')
   \<and> ''gpt-3.5-turbo'' \<in> set MODEL_NAMES
   \<and> mono (perf_counter (stub_env (Entry True True) (Returns ''resume'')))
   \<and> ((\<exists>resp. fst (post_query default_settings (stub_env (Entry True True) (Returns ''resume''))
                 sample_body) = Inr resp \<and> 0 \<le> latency resp)
      \<or> (\<exists>err. fst (post_query default_settings (stub_env (Entry True True) (Returns ''resume''))
                 sample_body) = Inl err
             \<and> is_server_error (status_code err) \<and> \<not> is_client_error (status_code err)))"
proof -
  have b1: "(512::int) \<le> MAX_CHUNK_SIZE default_settings"
    and b2: "(50::int) \<le> MAX_CHUNK_OVERLAP default_settings"
    by (simp_all add: default_settings_def)
  have m: "''gpt-3.5-turbo'' \<in> set MODEL_NAMES"
    by (simp add: MODEL_NAMES_def)
  have q: "''Where is the candidate studying?'' \<noteq> []"
    by simp
  note r = valid_request_never_client_error
    [OF sample_body_fields(1) q sample_body_fields(2) _ b1 sample_body_fields(3) _ b2
        sample_body_fields(4) m stub_env_clock [of "Entry True True" "Returns ''resume''"]]
  have "(\<exists>resp. fst (post_query default_settings (stub_env (Entry True True) (Returns ''resume''))
                 sample_body) = Inr resp \<and> 0 \<le> latency resp)
      \<or> (\<exists>err. fst (post_query default_settings (stub_env (Entry True True) (Returns ''resume''))
                 sample_body) = Inl err
             \<and> is_server_error (status_code err) \<and> \<not> is_client_error (status_code err))"
    by (rule r) simp_all
  with b1 b2 m sample_body_fields stub_env_clock show ?thesis
    by blast
qed

text \<open>
  C4. A body whose chunk size is an integer that is at most 0 or above
  \<open>MAX_CHUNK_SIZE\<close> is refused by the request model: the call ends with the
  validation error, whose status 422 is a client error and which names the field,
  and no library call is made.
\<close>

theorem chunk_size_out_of_bounds_rejected:
  assumes "map_of body ''chunk_size'' = Some (JInt cs)"
    and "cs \<le> 0 \<or> MAX_CHUNK_SIZE settings < cs"
  shows "\<exists>refused. post_query settings e body = (Inl (RequestValidationError refused), [])
           \<and> ''chunk_size'' \<in> set refused
           \<and> is_client_error (status_code (RequestValidationError refused))"
  using assms
  by (auto simp: post_query_def validate_QueryRequest_def validate_chunk_size_def int_field_def
      refused_fields_def is_client_error_def split: option.splits)

theorem chunk_size_out_of_bounds_rejected_witness:
  "map_of [(''question'', JStr ''Where is the candidate studying?''), (''chunk_size'', JInt 4096)]
      ''chunk_size'' = Some (JInt 4096)
   \<and> MAX_CHUNK_SIZE default_settings < 4096
   \<and> (\<exists>refused.
        post_query default_settings (stub_env (Entry True True) (Returns ''resume''))
          [(''question'', JStr ''Where is the candidate studying?''), (''chunk_size'', JInt 4096)]
          = (Inl (RequestValidationError refused), [])
        \<and> ''chunk_size'' \<in> set refused
        \<and> is_client_error (status_code (RequestValidationError refused)))"
proof -
  have a: "map_of [(''question'', JStr ''Where is the candidate studying?''),
      (''chunk_size'', JInt 4096)] ''chunk_size'' = Some (JInt 4096)"
    by simp
  have b: "MAX_CHUNK_SIZE default_settings < 4096"
    by (simp add: default_settings_def)
  from b have c: "(4096::int) \<le> 0 \<or> MAX_CHUNK_SIZE default_settings < 4096"
    by simp
  from a b chunk_size_out_of_bounds_rejected [OF a c] show ?thesis
    by blast
qed

text \<open>
  C8, as stated, fails: a document directory that exists but cannot be read passes
  the check of \<open>os.path.isdir\<close>, so the document load is attempted, and it is the
  load's failure that is reported.
\<close>

theorem unreadable_document_dir_is_loaded:
  "source_unavailable (fs (stub_env (Entry True False) Raises) (DOCUMENT_DIR default_settings))
   \<and> query_llm default_settings (stub_env (Entry True False) Raises) sample_request =
       (Inl (HTTPException 500 ''Could not read documents''), [Load_data ''documents''])"
  by (simp add: query_llm_def default_settings_def stub_env_def Let_def)

text \<open>
  C8, amended. When the configured document source is not a directory (the path is
  missing or names something else), the handler fails with status 500 and the detail
  "Document directory not found", and no library call is made. When it is a
  directory, readable or not, the document load is the first library call, and a load
  that raises gives status 500 with the detail "Could not read documents".
\<close>

theorem document_dir_check:
  "(\<not> os_path_isdir (fs e) (DOCUMENT_DIR settings) \<longrightarrow>
      query_llm settings e request =
        (Inl (HTTPException 500 ''Document directory not found''), []))
   \<and> (os_path_isdir (fs e) (DOCUMENT_DIR settings) \<longrightarrow>
        (\<exists>calls. snd (query_llm settings e request) = Load_data (DOCUMENT_DIR settings) # calls))
   \<and> (os_path_isdir (fs e) (DOCUMENT_DIR settings)
        \<and> load_data e (DOCUMENT_DIR settings) = Raises \<longrightarrow>
        query_llm settings e request =
          (Inl (HTTPException 500 ''Could not read documents''),
           [Load_data (DOCUMENT_DIR settings)]))"
  by (auto simp: query_llm_def Let_def split: outcome.splits prod.splits)

theorem document_dir_check_witness:
  "\<not> os_path_isdir (fs (stub_env Missing Raises)) (DOCUMENT_DIR default_settings)
   \<and> query_llm default_settings (stub_env Missing Raises) sample_request =
        (Inl (HTTPException 500 ''Document directory not found''), [])
   \<and> os_path_isdir (fs (stub_env (Entry True False) Raises)) (DOCUMENT_DIR default_settings)
   \<and> load_data (stub_env (Entry True False) Raises) (DOCUMENT_DIR default_settings) = Raises
   \<and> query_llm default_settings (stub_env (Entry True False) Raises) sample_request =
          (Inl (HTTPException 500 ''Could not read documents''),
           [Load_data (DOCUMENT_DIR default_settings)])"
proof -
  have a: "\<not> os_path_isdir (fs (stub_env Missing Raises)) (DOCUMENT_DIR default_settings)"
    by (simp add: stub_env_def default_settings_def)
  have b: "os_path_isdir (fs (stub_env (Entry True False) Raises)) (DOCUMENT_DIR default_settings)"
    by (simp add: stub_env_def default_settings_def)
  have c: "load_data (stub_env (Entry True False) Raises) (DOCUMENT_DIR default_settings) = Raises"
    by (simp add: stub_env_def)
  show ?thesis
    using a b c
      document_dir_check [of "stub_env Missing Raises" default_settings sample_request]
      document_dir_check [of "stub_env (Entry True False) Raises" default_settings sample_request]
    by simp
qed

section \<open>Facts about the evaluation harness\<close>

lemma request_json_Raises_iff:
  "request_json h k endpoint payload = Raises \<longleftrightarrow> call_fails (post h k endpoint payload)"
  by (cases "post h k endpoint payload" rule: call_fails.cases)
     (auto simp: request_json_def split: option.splits)

lemma evaluate_failed_call:
  "call_fails (post h (length sent) endpoint (make_payload q cs co)) \<Longrightarrow>
   evaluate h sent q ex cs co endpoint =
     (Inr (failure_record cs), sent @ [(endpoint, make_payload q cs co)])"
  by (simp add: evaluate_def Let_def request_json_Raises_iff [symmetric])

lemma dict_set_failure_record:
  "dict_set (failure_record cs) ''question'' (JStr (question tq)) = tagged_failure cs tq"
  by (simp add: failure_record_def tagged_failure_def)

lemma for_queries_failed_call:
  "call_fails (post h (length sent) ''http://localhost:8000/query''
      (make_payload (question tq) cs 50)) \<Longrightarrow>
   for_queries h cs (tq # tqs) (results, sent) =
     for_queries h cs tqs (results @ [tagged_failure cs tq], sent @ [planned_request cs tq])"
  by (simp add: evaluate_failed_call dict_set_failure_record planned_request_def)

lemma for_queries_all_fail:
  assumes "\<And>k endpoint payload. call_fails (post h k endpoint payload)"
  shows "for_queries h cs tqs (results, sent) =
     (Inr (results @ map (tagged_failure cs) tqs), sent @ map (planned_request cs) tqs)"
proof (induction tqs arbitrary: results sent)
  case Nil
  show ?case by simp
next
  case (Cons tq tqs)
  show ?case
    by (simp only: for_queries_failed_call [OF assms] Cons.IH) simp
qed

lemma for_chunk_sizes_all_fail:
  assumes "\<And>k endpoint payload. call_fails (post h k endpoint payload)"
  shows "for_chunk_sizes h css tqs (results, sent) =
     (Inr (results @ concat (map (\<lambda>cs. map (tagged_failure cs) tqs) css)),
      sent @ planned_requests css tqs)"
proof (induction css arbitrary: results sent)
  case Nil
  show ?case by (simp add: planned_requests_def)
next
  case (Cons cs css)
  show ?case
    by (simp add: for_queries_all_fail [OF assms] Cons.IH planned_requests_def)
qed

lemma TEST_QUERIES_nth: "TEST_QUERIES = [TEST_QUERIES ! 0, TEST_QUERIES ! 1]"
  by (simp add: TEST_QUERIES_def)

lemma stub_harness_fails: "call_fails (post (stub_harness Raises score) k endpoint payload)"
  by (simp add: stub_harness_def)

text \<open>
  C2. When the call for a pair fails (the post raises, \<open>raise_for_status\<close> raises for
  the status, or the body does not decode), \<open>evaluate\<close> returns the record with a null
  latency, a score of 0.0 and an empty answer, and the loops of \<open>main\<close> go on with the
  remaining queries and chunk sizes, the record appended with its question.
\<close>

theorem failed_call_recorded_and_sweep_continues:
  "(call_fails (post h (length sent) endpoint (make_payload q cs co)) \<longrightarrow>
      evaluate h sent q ex cs co endpoint =
        (Inr [(''chunk_size'', JInt cs), (''latency'', JNull), (''bleu'', JFloat 0),
              (''answer'', JStr '''')],
         sent @ [(endpoint, make_payload q cs co)]))
   \<and> (call_fails (post h (length sent) ''http://localhost:8000/query''
          (make_payload (question tq) cs 50)) \<longrightarrow>
        for_queries h cs (tq # tqs) (results, sent) =
          for_queries h cs tqs (results @ [tagged_failure cs tq], sent @ [planned_request cs tq])
        \<and> for_chunk_sizes h (cs # css) (tq # tqs) (results, sent) =
          (case for_queries h cs tqs
                  (results @ [tagged_failure cs tq], sent @ [planned_request cs tq]) of
             (Inl exn, sent') \<Rightarrow> (Inl exn, sent')
           | (Inr results', sent') \<Rightarrow> for_chunk_sizes h css (tq # tqs) (results', sent')))"
proof (intro conjI impI)
  assume "call_fails (post h (length sent) endpoint (make_payload q cs co))"
  then show "evaluate h sent q ex cs co endpoint =
        (Inr [(''chunk_size'', JInt cs), (''latency'', JNull), (''bleu'', JFloat 0),
              (''answer'', JStr '''')],
         sent @ [(endpoint, make_payload q cs co)])"
    by (simp add: evaluate_failed_call failure_record_def)
next
  assume f: "call_fails (post h (length sent) ''http://localhost:8000/query''
          (make_payload (question tq) cs 50))"
  show "for_queries h cs (tq # tqs) (results, sent) =
          for_queries h cs tqs (results @ [tagged_failure cs tq], sent @ [planned_request cs tq])"
    by (rule for_queries_failed_call [OF f])
  show "for_chunk_sizes h (cs # css) (tq # tqs) (results, sent) =
          (case for_queries h cs tqs
                  (results @ [tagged_failure cs tq], sent @ [planned_request cs tq]) of
             (Inl exn, sent') \<Rightarrow> (Inl exn, sent')
           | (Inr results', sent') \<Rightarrow> for_chunk_sizes h css (tq # tqs) (results', sent'))"
    by (simp only: for_chunk_sizes.simps for_queries_failed_call [OF f])
qed

theorem failed_call_recorded_and_sweep_continues_witness:
  "call_fails (post (stub_harness (Returns (Response 500 None)) (Returns 0)) (length ([] :: (string \<times> dict) list))
      ''http://localhost:8000/query'' (make_payload (question (TEST_QUERIES ! 1)) 256 50))
   \<and> evaluate (stub_harness (Returns (Response 500 None)) (Returns 0)) []
        (question (TEST_QUERIES ! 1)) (expected (TEST_QUERIES ! 1)) 256 50
        ''http://localhost:8000/query'' =
        (Inr [(''chunk_size'', JInt 256), (''latency'', JNull), (''bleu'', JFloat 0),
              (''answer'', JStr '''')],
         [] @ [(''http://localhost:8000/query'', make_payload (question (TEST_QUERIES ! 1)) 256 50)])
   \<and> for_queries (stub_harness (Returns (Response 500 None)) (Returns 0)) 256
        [TEST_QUERIES ! 1] ([], []) =
      for_queries (stub_harness (Returns (Response 500 None)) (Returns 0)) 256 []
        ([] @ [tagged_failure 256 (TEST_QUERIES ! 1)], [] @ [planned_request 256 (TEST_QUERIES ! 1)])"
proof -
  have f: "call_fails (post (stub_harness (Returns (Response 500 None)) (Returns 0))
      (length ([] :: (string \<times> dict) list))
      ''http://localhost:8000/query'' (make_payload (question (TEST_QUERIES ! 1)) 256 50))"
    by (simp add: stub_harness_def)
  from f failed_call_recorded_and_sweep_continues
    [of "stub_harness (Returns (Response 500 None)) (Returns 0)" "[]"
        "''http://localhost:8000/query''" "question (TEST_QUERIES ! 1)" 256 50
        "expected (TEST_QUERIES ! 1)" "TEST_QUERIES ! 1" "[]" "[]" "[]"]
  show ?thesis by blast
qed

text \<open>
  C5. When every call fails, the sweep over any chunk sizes and queries ends without
  an exception, with one failure record per pair of chunk size and query, in the order
  of the loops. \<open>main\<close>, whose sweep is fixed, then writes (when the file can be
  opened) six records, each with its chunk size and its question.
\<close>

theorem unreachable_service_sweep:
  assumes "\<And>k endpoint payload. call_fails (post h k endpoint payload)"
    and "can_open h (''eval_results_'' @ strftime h @ ''.json'')"
  shows "fst (for_chunk_sizes h css tqs ([], [])) =
           Inr (concat (map (\<lambda>cs. map (tagged_failure cs) tqs) css))
       \<and> length (concat (map (\<lambda>cs. map (tagged_failure cs) tqs) css)) = length css * length tqs
       \<and> fst (main h) =
           Inr (''eval_results_'' @ strftime h @ ''.json'',
                JList (map JDict
                  [tagged_failure 256 (TEST_QUERIES ! 0), tagged_failure 256 (TEST_QUERIES ! 1),
                   tagged_failure 512 (TEST_QUERIES ! 0), tagged_failure 512 (TEST_QUERIES ! 1),
                   tagged_failure 1024 (TEST_QUERIES ! 0), tagged_failure 1024 (TEST_QUERIES ! 1)]))"
proof (intro conjI)
  show "fst (for_chunk_sizes h css tqs ([], [])) =
           Inr (concat (map (\<lambda>cs. map (tagged_failure cs) tqs) css))"
    by (simp add: for_chunk_sizes_all_fail [OF assms(1)])
  show "length (concat (map (\<lambda>cs. map (tagged_failure cs) tqs) css)) = length css * length tqs"
    by (induction css) simp_all
  have "concat (map (\<lambda>cs. map (tagged_failure cs) TEST_QUERIES) [256, 512, 1024]) =
      [tagged_failure 256 (TEST_QUERIES ! 0), tagged_failure 256 (TEST_QUERIES ! 1),
       tagged_failure 512 (TEST_QUERIES ! 0), tagged_failure 512 (TEST_QUERIES ! 1),
       tagged_failure 1024 (TEST_QUERIES ! 0), tagged_failure 1024 (TEST_QUERIES ! 1)]"
    by (subst (1 2 3) TEST_QUERIES_nth) simp
  then show "fst (main h) =
           Inr (''eval_results_'' @ strftime h @ ''.json'',
                JList (map JDict
                  [tagged_failure 256 (TEST_QUERIES ! 0), tagged_failure 256 (TEST_QUERIES ! 1),
                   tagged_failure 512 (TEST_QUERIES ! 0), tagged_failure 512 (TEST_QUERIES ! 1),
                   tagged_failure 1024 (TEST_QUERIES ! 0), tagged_failure 1024 (TEST_QUERIES ! 1)]))"
    using assms(2)
    by (simp only: main_def for_chunk_sizes_all_fail [OF assms(1)] prod.case sum.case Let_def
        append_Nil if_True fst_conv)
qed


theorem unreachable_service_sweep_witness:
  "(\<forall>k endpoint payload. call_fails (post (stub_harness Raises (Returns 0)) k endpoint payload))
   \<and> can_open (stub_harness Raises (Returns 0))
        (''eval_results_'' @ strftime (stub_harness Raises (Returns 0)) @ ''.json'')
   \<and> fst (for_chunk_sizes (stub_harness Raises (Returns 0)) [256, 512] [TEST_QUERIES ! 1] ([], [])) =
        Inr [tagged_failure 256 (TEST_QUERIES ! 1), tagged_failure 512 (TEST_QUERIES ! 1)]
   \<and> fst (main (stub_harness Raises (Returns 0))) =
        Inr (''eval_results_20240101-120000.json'',
             JList (map JDict
               [tagged_failure 256 (TEST_QUERIES ! 0), tagged_failure 256 (TEST_QUERIES ! 1),
                tagged_failure 512 (TEST_QUERIES ! 0), tagged_failure 512 (TEST_QUERIES ! 1),
                tagged_failure 1024 (TEST_QUERIES ! 0), tagged_failure 1024 (TEST_QUERIES ! 1)]))"
proof -
  have o: "can_open (stub_harness Raises (Returns 0))
        (''eval_results_'' @ strftime (stub_harness Raises (Returns 0)) @ ''.json'')"
    by (simp add: stub_harness_def)
  have n: "''eval_results_'' @ strftime (stub_harness Raises (Returns 0)) @ ''.json''
      = ''eval_results_20240101-120000.json''"
    by (simp add: stub_harness_def)
  from unreachable_service_sweep [OF stub_harness_fails o,
      where css = "[256, 512]" and tqs = "[TEST_QUERIES ! 1]"]
    stub_harness_fails [of "Returns 0"] o n
  show ?thesis by simp
qed

lemma evaluate_sent:
  "snd (evaluate h sent q ex cs co endpoint) = sent @ [(endpoint, make_payload q cs co)]"
  by (simp add: evaluate_def Let_def split: outcome.splits json.splits)

lemma evaluate_non_string_answer:
  assumes "post h (length sent) endpoint (make_payload q cs co) =
      Returns (Response code (Some (JDict d)))"
    and "\<not> raise_for_status_raises code"
    and "map_of d ''answer'' = Some v"
    and "\<not> is_str v"
  shows "fst (evaluate h sent q ex cs co endpoint) = Inl AttributeError"
proof -
  have "request_json h (length sent) endpoint (make_payload q cs co) = Returns (JDict d)"
    using assms(1,2) by (simp add: request_json_def)
  moreover have "dict_get d ''answer'' (JStr []) = v"
    using assms(3) by (simp add: dict_get_def)
  ultimately show ?thesis
    using assms(4) by (cases v) (simp_all add: evaluate_def Let_def)
qed

lemma for_queries_raises:
  "fst (evaluate h sent (question tq) (expected tq) cs 50 ''http://localhost:8000/query'') = Inl exn
   \<Longrightarrow> fst (for_queries h cs (tq # tqs) (results, sent)) = Inl exn"
  by (cases "evaluate h sent (question tq) (expected tq) cs 50 ''http://localhost:8000/query''")
     simp

lemma for_chunk_sizes_raises:
  "fst (for_queries h cs tqs (results, sent)) = Inl exn \<Longrightarrow>
   fst (for_chunk_sizes h (cs # css) tqs (results, sent)) = Inl exn"
  by (cases "for_queries h cs tqs (results, sent)") simp

lemma main_raises:
  "fst (for_chunk_sizes h [256, 512, 1024] TEST_QUERIES ([], [])) = Inl exn \<Longrightarrow>
   fst (main h) = Inl exn"
  by (cases "for_chunk_sizes h [256, 512, 1024] TEST_QUERIES ([], [])")
     (simp only: main_def fst_conv prod.case sum.case)

text \<open>
  C3, as stated, fails: a call that succeeds with a body that has no latency field
  gives a record whose latency is null.
\<close>

theorem null_latency_after_successful_call:
  "\<not> call_fails (post (stub_harness (Returns (Response 200 (Some (JDict [(''answer'', JStr ''San Jose'')]))))
          (Returns (1/2)))
        0 ''http://localhost:8000/query'' (make_payload ''Where is the candidate studying?'' 512 50))
   \<and> fst (evaluate (stub_harness (Returns (Response 200 (Some (JDict [(''answer'', JStr ''San Jose'')]))))
          (Returns (1/2)))
        [] ''Where is the candidate studying?''
        ''The candidate is pursuing an MS in Computer Science at San Jose State University.''
        512 50 ''http://localhost:8000/query'')
     = Inr [(''chunk_size'', JInt 512), (''latency'', JNull), (''bleu'', JFloat (1/2)),
            (''answer'', JStr ''San Jose'')]"
  by (simp add: stub_harness_def evaluate_def request_json_def raise_for_status_raises_def
      dict_get_def Let_def)

text \<open>
  C3, amended. In every record \<open>evaluate\<close> returns, the latency is null when the call
  failed; after a call that succeeded, it is the value of the body's latency field,
  and null when the body has no such field.
\<close>

theorem latency_of_result:
  "(call_fails (post h (length sent) endpoint (make_payload q cs co)) \<longrightarrow>
      (\<exists>res. fst (evaluate h sent q ex cs co endpoint) = Inr res
           \<and> map_of res ''latency'' = Some JNull))
   \<and> (\<forall>code d res.
        post h (length sent) endpoint (make_payload q cs co) =
          Returns (Response code (Some (JDict d)))
        \<and> \<not> raise_for_status_raises code
        \<and> fst (evaluate h sent q ex cs co endpoint) = Inr res \<longrightarrow>
        map_of res ''latency'' = Some (dict_get d ''latency'' JNull))"
proof (intro conjI impI allI)
  assume "call_fails (post h (length sent) endpoint (make_payload q cs co))"
  then show "\<exists>res. fst (evaluate h sent q ex cs co endpoint) = Inr res
           \<and> map_of res ''latency'' = Some JNull"
    by (simp add: evaluate_failed_call failure_record_def)
next
  fix code d res
  assume a: "post h (length sent) endpoint (make_payload q cs co) =
          Returns (Response code (Some (JDict d)))
        \<and> \<not> raise_for_status_raises code
        \<and> fst (evaluate h sent q ex cs co endpoint) = Inr res"
  then have "request_json h (length sent) endpoint (make_payload q cs co) = Returns (JDict d)"
    by (simp add: request_json_def)
  with a show "map_of res ''latency'' = Some (dict_get d ''latency'' JNull)"
    by (auto simp: evaluate_def Let_def split: json.splits outcome.splits)
qed

theorem latency_of_result_witness:
  "call_fails (post (stub_harness Raises (Returns 0)) (length ([] :: (string \<times> dict) list))
      ''http://localhost:8000/query'' (make_payload ''Where is the candidate studying?'' 512 50))
   \<and> (\<exists>res. fst (evaluate (stub_harness Raises (Returns 0)) []
                ''Where is the candidate studying?'' ''San Jose State University.'' 512 50
                ''http://localhost:8000/query'') = Inr res
          \<and> map_of res ''latency'' = Some JNull)
   \<and> post (stub_harness (Returns (Response 200 (Some (JDict [(''answer'', JStr ''San Jose''),
                (''latency'', JFloat (3/2))])))) (Returns (1/2)))
        (length ([] :: (string \<times> dict) list)) ''http://localhost:8000/query''
        (make_payload ''Where is the candidate studying?'' 512 50)
      = Returns (Response 200 (Some (JDict [(''answer'', JStr ''San Jose''),
                (''latency'', JFloat (3/2))])))
   \<and> \<not> raise_for_status_raises 200
   \<and> fst (evaluate (stub_harness (Returns (Response 200 (Some (JDict [(''answer'', JStr ''San Jose''),
                (''latency'', JFloat (3/2))])))) (Returns (1/2))) []
            ''Where is the candidate studying?'' ''San Jose State University.'' 512 50
            ''http://localhost:8000/query'')
      = Inr [(''chunk_size'', JInt 512), (''latency'', JFloat (3/2)), (''bleu'', JFloat (1/2)),
             (''answer'', JStr ''San Jose'')]
   \<and> map_of [(''chunk_size'', JInt 512), (''latency'', JFloat (3/2)), (''bleu'', JFloat (1/2)),
             (''answer'', JStr ''San Jose'')] ''latency''
      = Some (dict_get [(''answer'', JStr ''San Jose''), (''latency'', JFloat (3/2))]
                ''latency'' JNull)"
proof -
  let ?h1 = "stub_harness Raises (Returns 0)"
  let ?d = "[(''answer'', JStr ''San Jose''), (''latency'', JFloat (3/2))]"
  let ?h2 = "stub_harness (Returns (Response 200 (Some (JDict ?d)))) (Returns (1/2))"
  let ?res = "[(''chunk_size'', JInt 512), (''latency'', JFloat (3/2)), (''bleu'', JFloat (1/2)),
             (''answer'', JStr ''San Jose'')]"
  have f: "call_fails (post ?h1 (length ([] :: (string \<times> dict) list))
      ''http://localhost:8000/query'' (make_payload ''Where is the candidate studying?'' 512 50))"
    by (simp add: stub_harness_def)
  have p: "post ?h2 (length ([] :: (string \<times> dict) list)) ''http://localhost:8000/query''
        (make_payload ''Where is the candidate studying?'' 512 50)
      = Returns (Response 200 (Some (JDict ?d)))"
    by (simp add: stub_harness_def)
  have s: "\<not> raise_for_status_raises 200"
    by (simp add: raise_for_status_raises_def)
  have e: "fst (evaluate ?h2 [] ''Where is the candidate studying?''
            ''San Jose State University.'' 512 50 ''http://localhost:8000/query'') = Inr ?res"
    by (simp add: stub_harness_def evaluate_def request_json_def raise_for_status_raises_def
        dict_get_def Let_def)
  note t1 = latency_of_result [of ?h1 "[]" "''http://localhost:8000/query''"
      "''Where is the candidate studying?''" 512 50 "''San Jose State University.''"]
  note t2 = latency_of_result [of ?h2 "[]" "''http://localhost:8000/query''"
      "''Where is the candidate studying?''" 512 50 "''San Jose State University.''"]
  from t1 f have c1: "\<exists>res. fst (evaluate ?h1 []
                ''Where is the candidate studying?'' ''San Jose State University.'' 512 50
                ''http://localhost:8000/query'') = Inr res
          \<and> map_of res ''latency'' = Some JNull"
    by blast
  from t2 p s e have c2: "map_of ?res ''latency'' = Some (dict_get ?d ''latency'' JNull)"
    by blast
  from f c1 p s e c2 show ?thesis
    by blast
qed

text \<open>
  C10. When the call succeeds with a body that is an object whose answer field is
  not a string, \<open>evaluate\<close> raises \<open>AttributeError\<close>. An exception that leaves
  \<open>evaluate\<close> leaves both loops, and an exception that leaves the sweep leaves \<open>main\<close>:
  no result file is written.
\<close>

theorem non_string_answer_aborts_sweep:
  "(post h (length sent) endpoint (make_payload q cs co) =
        Returns (Response code (Some (JDict d)))
      \<and> \<not> raise_for_status_raises code
      \<and> map_of d ''answer'' = Some v \<and> \<not> is_str v \<longrightarrow>
      fst (evaluate h sent q ex cs co endpoint) = Inl AttributeError)
   \<and> (fst (evaluate h sent (question tq) (expected tq) cs 50 ''http://localhost:8000/query'')
        = Inl exn \<longrightarrow>
        fst (for_queries h cs (tq # tqs) (results, sent)) = Inl exn
        \<and> fst (for_chunk_sizes h (cs # css) (tq # tqs) (results, sent)) = Inl exn)
   \<and> (fst (for_chunk_sizes h [256, 512, 1024] TEST_QUERIES ([], [])) = Inl exn \<longrightarrow>
        fst (main h) = Inl exn)"
  using evaluate_non_string_answer [of h sent endpoint q cs co code d v ex]
    for_queries_raises [of h sent tq cs exn tqs results]
    for_chunk_sizes_raises [of h cs "tq # tqs" results sent exn css]
    main_raises [of h exn]
  by blast

theorem non_string_answer_aborts_sweep_witness:
  "post (stub_harness (Returns (Response 200 (Some (JDict [(''answer'', JNull)])))) (Returns 0))
      (length ([] :: (string \<times> dict) list)) ''http://localhost:8000/query''
      (make_payload (question (TEST_QUERIES ! 0)) 256 50)
     = Returns (Response 200 (Some (JDict [(''answer'', JNull)])))
   \<and> \<not> raise_for_status_raises 200
   \<and> map_of [(''answer'', JNull)] ''answer'' = Some JNull
   \<and> \<not> is_str JNull
   \<and> fst (evaluate (stub_harness (Returns (Response 200 (Some (JDict [(''answer'', JNull)])))) (Returns 0))
          [] (question (TEST_QUERIES ! 0)) (expected (TEST_QUERIES ! 0)) 256 50
          ''http://localhost:8000/query'') = Inl AttributeError
   \<and> fst (for_chunk_sizes
          (stub_harness (Returns (Response 200 (Some (JDict [(''answer'', JNull)])))) (Returns 0))
          [256, 512, 1024] TEST_QUERIES ([], [])) = Inl AttributeError
   \<and> fst (main (stub_harness (Returns (Response 200 (Some (JDict [(''answer'', JNull)])))) (Returns 0)))
       = Inl AttributeError"
proof -
  let ?h = "stub_harness (Returns (Response 200 (Some (JDict [(''answer'', JNull)])))) (Returns 0)"
  have p: "post ?h (length ([] :: (string \<times> dict) list)) ''http://localhost:8000/query''
      (make_payload (question (TEST_QUERIES ! 0)) 256 50)
     = Returns (Response 200 (Some (JDict [(''answer'', JNull)])))"
    by (simp add: stub_harness_def)
  have s: "\<not> raise_for_status_raises 200"
    by (simp add: raise_for_status_raises_def)
  have a: "map_of [(''answer'', JNull)] ''answer'' = Some JNull"
    by simp
  have n: "\<not> is_str JNull"
    by simp
  note t = non_string_answer_aborts_sweep [where h = ?h and sent = "[]"
      and endpoint = "''http://localhost:8000/query''" and q = "question (TEST_QUERIES ! 0)"
      and cs = 256 and co = 50 and code = 200 and d = "[(''answer'', JNull)]" and v = JNull
      and ex = "expected (TEST_QUERIES ! 0)" and tq = "TEST_QUERIES ! 0" and exn = AttributeError
      and tqs = "[TEST_QUERIES ! 1]" and results = "[]" and css = "[512, 1024]"]
  have l: "TEST_QUERIES ! 0 # [TEST_QUERIES ! 1] = TEST_QUERIES"
    using TEST_QUERIES_nth by simp
  from t p s a n have e: "fst (evaluate ?h [] (question (TEST_QUERIES ! 0))
      (expected (TEST_QUERIES ! 0)) 256 50 ''http://localhost:8000/query'') = Inl AttributeError"
    by blast
  with t have "fst (for_chunk_sizes ?h (256 # [512, 1024]) (TEST_QUERIES ! 0 # [TEST_QUERIES ! 1])
      ([], [])) = Inl AttributeError"
    by blast
  then have f: "fst (for_chunk_sizes ?h [256, 512, 1024] TEST_QUERIES ([], [])) = Inl AttributeError"
    by (simp only: l)
  with t have m: "fst (main ?h) = Inl AttributeError"
    by blast
  from p s a n e f m show ?thesis
    by blast
qed

lemma for_queries_sent_complete:
  "fst (for_queries h cs tqs (results, sent)) = Inr rs \<Longrightarrow>
   snd (for_queries h cs tqs (results, sent)) = sent @ map (planned_request cs) tqs"
proof (induction tqs arbitrary: results sent)
  case Nil
  then show ?case by simp
next
  case (Cons tq tqs)
  obtain r sent' where ev:
    "evaluate h sent (question tq) (expected tq) cs 50 ''http://localhost:8000/query'' = (r, sent')"
    by (cases "evaluate h sent (question tq) (expected tq) cs 50 ''http://localhost:8000/query''")
  have s: "sent' = sent @ [planned_request cs tq]"
    using evaluate_sent [of h sent "question tq" "expected tq" cs 50 "''http://localhost:8000/query''"] ev
    by (simp add: planned_request_def)
  show ?case
  proof (cases r)
    case (Inl exn)
    with Cons.prems ev show ?thesis by simp
  next
    case (Inr res)
    with Cons.prems ev Cons.IH [of "results @ [dict_set res ''question'' (JStr (question tq))]" sent'] s
    show ?thesis by simp
  qed
qed

lemma for_queries_sent_prefix:
  "\<exists>n. snd (for_queries h cs tqs (results, sent)) = sent @ take n (map (planned_request cs) tqs)"
proof (induction tqs arbitrary: results sent)
  case Nil
  show ?case by simp
next
  case (Cons tq tqs)
  obtain r sent' where ev:
    "evaluate h sent (question tq) (expected tq) cs 50 ''http://localhost:8000/query'' = (r, sent')"
    by (cases "evaluate h sent (question tq) (expected tq) cs 50 ''http://localhost:8000/query''")
  have s: "sent' = sent @ [planned_request cs tq]"
    using evaluate_sent [of h sent "question tq" "expected tq" cs 50 "''http://localhost:8000/query''"] ev
    by (simp add: planned_request_def)
  show ?case
  proof (cases r)
    case (Inl exn)
    with ev s have "snd (for_queries h cs (tq # tqs) (results, sent))
        = sent @ take 1 (map (planned_request cs) (tq # tqs))" by simp
    then show ?thesis by blast
  next
    case (Inr res)
    from Cons.IH [of "results @ [dict_set res ''question'' (JStr (question tq))]" sent']
    obtain n where "snd (for_queries h cs tqs
        (results @ [dict_set res ''question'' (JStr (question tq))], sent'))
        = sent' @ take n (map (planned_request cs) tqs)" by blast
    with ev s Inr have "snd (for_queries h cs (tq # tqs) (results, sent))
        = sent @ take (Suc n) (map (planned_request cs) (tq # tqs))" by simp
    then show ?thesis by blast
  qed
qed

lemma for_chunk_sizes_sent_prefix:
  "\<exists>n. snd (for_chunk_sizes h css tqs (results, sent)) = sent @ take n (planned_requests css tqs)"
proof (induction css arbitrary: results sent)
  case Nil
  show ?case by (simp add: planned_requests_def)
next
  case (Cons cs css)
  obtain r sent' where fq: "for_queries h cs tqs (results, sent) = (r, sent')"
    by (cases "for_queries h cs tqs (results, sent)")
  have unfold: "planned_requests (cs # css) tqs
      = map (planned_request cs) tqs @ planned_requests css tqs"
    by (simp add: planned_requests_def)
  show ?case
  proof (cases r)
    case (Inl exn)
    from for_queries_sent_prefix [of h cs tqs results sent] fq
    obtain n where n: "sent' = sent @ take n (map (planned_request cs) tqs)" by auto
    have "take n (map (planned_request cs) tqs)
        = take (min n (length tqs)) (planned_requests (cs # css) tqs)"
      by (simp add: unfold min_def)
    with n fq Inl have "snd (for_chunk_sizes h (cs # css) tqs (results, sent))
        = sent @ take (min n (length tqs)) (planned_requests (cs # css) tqs)" by simp
    then show ?thesis by blast
  next
    case (Inr rs)
    from for_queries_sent_complete [of h cs tqs results sent rs] fq Inr
    have s: "sent' = sent @ map (planned_request cs) tqs" by simp
    from Cons.IH [of rs sent'] obtain m where
      m: "snd (for_chunk_sizes h css tqs (rs, sent')) = sent' @ take m (planned_requests css tqs)"
      by blast
    from fq Inr s m have "snd (for_chunk_sizes h (cs # css) tqs (results, sent))
        = sent @ take (length tqs + m) (planned_requests (cs # css) tqs)"
      by (simp add: unfold)
    then show ?thesis by blast
  qed
qed

lemma main_sent:
  "snd (main h) = snd (for_chunk_sizes h [256, 512, 1024] TEST_QUERIES ([], []))"
proof (cases "for_chunk_sizes h [256, 512, 1024] TEST_QUERIES ([], [])")
  case (Pair r sent')
  then show ?thesis
    by (cases r) (simp_all only: main_def Let_def prod.case sum.case snd_conv if_distrib if_cancel)
qed

lemma main_sent_prefix:
  "\<exists>n. snd (main h) = take n (planned_requests [256, 512, 1024] TEST_QUERIES)"
  using for_chunk_sizes_sent_prefix [of h "[256, 512, 1024]" TEST_QUERIES "[]" "[]"]
  by (simp only: main_sent append_Nil)

lemma planned_requests_payload:
  "(endpoint, payload) \<in> set (planned_requests css tqs) \<Longrightarrow>
   \<exists>cs tq. cs \<in> set css \<and> tq \<in> set tqs \<and> endpoint = ''http://localhost:8000/query''
      \<and> payload = make_payload (question tq) cs 50"
  by (auto simp: planned_requests_def planned_request_def)

lemma payload_default_model:
  "validate_QueryRequest settings e (make_payload q cs co) = Inr request \<Longrightarrow>
   model request = OPENAI_MODEL_NAME settings"
  by (auto simp: validate_QueryRequest_def validate_model_def make_payload_def
      split: option.splits)

lemma make_payload_fields:
  "keys (make_payload q cs co) = [''question'', ''chunk_size'', ''chunk_overlap'']"
  "map_of (make_payload q cs co) ''model'' = None"
  "map_of (make_payload q cs co) ''chunk_overlap'' = Some (JInt co)"
  "map_of (make_payload q cs co) ''chunk_size'' = Some (JInt cs)"
  "map_of (make_payload q cs co) ''question'' = Some (JStr q)"
  by (simp_all add: make_payload_def keys_def)

lemma validate_payload:
  "validate_QueryRequest settings e (make_payload q cs co) = Inr request \<Longrightarrow>
   request = \<lparr>QueryRequest.question = q, chunk_size = cs, chunk_overlap = co,
              model = OPENAI_MODEL_NAME settings\<rparr>"
  by (auto simp: validate_QueryRequest_def validate_question_def validate_chunk_size_def
      validate_chunk_overlap_def validate_model_def int_field_def str_field_def
      make_payload_def split: option.splits if_splits)

lemma rag_pipeline_models:
  "OpenAI_init m \<in> set (snd (rag_pipeline e request documents)) \<Longrightarrow> m = model request"
  by (auto simp: rag_pipeline_def split: outcome.splits)

lemma rag_pipeline_answer:
  assumes "fst (rag_pipeline e request documents) = Returns a"
  shows "(\<exists>llm svc_ctx index query_engine result.
            OpenAI e (model request) = Returns llm
          \<and> from_defaults e llm (chunk_size request) (chunk_overlap request) = Returns svc_ctx
          \<and> from_documents e documents svc_ctx = Returns index
          \<and> as_query_engine e index = Returns query_engine
          \<and> query e query_engine (QueryRequest.question request) = Returns result
          \<and> str_of e result = Returns a)
       \<and> snd (rag_pipeline e request documents) =
           [OpenAI_init (model request),
            ServiceContext_from_defaults (chunk_size request) (chunk_overlap request),
            VectorStoreIndex_from_documents, As_query_engine,
            Query (QueryRequest.question request), Str_of_result]"
  using assms
  by (auto simp: rag_pipeline_def split: outcome.splits)

lemma query_llm_models:
  "OpenAI_init m \<in> set (snd (query_llm settings e request)) \<Longrightarrow> m = model request"
proof -
  have r: "m = model request"
    if "rag_pipeline e request documents = (a, calls)" "OpenAI_init m \<in> set calls"
    for documents a calls
    using rag_pipeline_models [of m e request documents] that by simp
  assume "OpenAI_init m \<in> set (snd (query_llm settings e request))"
  then show ?thesis
    by (auto simp: query_llm_def Let_def dest: r split: outcome.splits prod.splits if_splits)
qed

lemma query_llm_answer:
  assumes "fst (query_llm settings e request) = Inr resp"
  shows "(\<exists>documents llm svc_ctx index query_engine result.
            load_data e (DOCUMENT_DIR settings) = Returns documents
          \<and> OpenAI e (model request) = Returns llm
          \<and> from_defaults e llm (chunk_size request) (chunk_overlap request) = Returns svc_ctx
          \<and> from_documents e documents svc_ctx = Returns index
          \<and> as_query_engine e index = Returns query_engine
          \<and> query e query_engine (QueryRequest.question request) = Returns result
          \<and> str_of e result = Returns (answer resp))
       \<and> snd (query_llm settings e request) =
           [Load_data (DOCUMENT_DIR settings), OpenAI_init (model request),
            ServiceContext_from_defaults (chunk_size request) (chunk_overlap request),
            VectorStoreIndex_from_documents, As_query_engine,
            Query (QueryRequest.question request), Str_of_result]"
proof -
  from assms obtain documents calls where
    d: "load_data e (DOCUMENT_DIR settings) = Returns documents"
    and r: "rag_pipeline e request documents = (Returns (answer resp), calls)"
    and s: "snd (query_llm settings e request) = Load_data (DOCUMENT_DIR settings) # calls"
    by (auto simp: query_llm_def Let_def split: outcome.splits prod.splits if_splits)
  from r have "fst (rag_pipeline e request documents) = Returns (answer resp)"
    and c: "snd (rag_pipeline e request documents) = calls"
    by simp_all
  from rag_pipeline_answer [OF this(1)] c d s show ?thesis
    by auto
qed

lemma post_query_payload_models:
  "OpenAI_init m \<in> set (snd (post_query settings e (make_payload q cs co))) \<Longrightarrow>
   m = OPENAI_MODEL_NAME settings"
proof (cases "validate_QueryRequest settings e (make_payload q cs co)")
  case (Inl err)
  assume "OpenAI_init m \<in> set (snd (post_query settings e (make_payload q cs co)))"
  with Inl show ?thesis by (simp add: post_query_def)
next
  case (Inr request)
  assume "OpenAI_init m \<in> set (snd (post_query settings e (make_payload q cs co)))"
  with Inr have "m = model request"
    by (simp add: post_query_def query_llm_models)
  with payload_default_model [OF Inr] show ?thesis by simp
qed

lemma post_query_payload_answer:
  assumes "fst (post_query settings e (make_payload q cs co)) = Inr resp"
  shows "(\<exists>documents llm svc_ctx index query_engine result.
            load_data e (DOCUMENT_DIR settings) = Returns documents
          \<and> OpenAI e (OPENAI_MODEL_NAME settings) = Returns llm
          \<and> from_defaults e llm cs co = Returns svc_ctx
          \<and> from_documents e documents svc_ctx = Returns index
          \<and> as_query_engine e index = Returns query_engine
          \<and> query e query_engine q = Returns result
          \<and> str_of e result = Returns (answer resp))
       \<and> snd (post_query settings e (make_payload q cs co)) =
           [Load_data (DOCUMENT_DIR settings), OpenAI_init (OPENAI_MODEL_NAME settings),
            ServiceContext_from_defaults cs co, VectorStoreIndex_from_documents,
            As_query_engine, Query q, Str_of_result]"
proof (cases "validate_QueryRequest settings e (make_payload q cs co)")
  case (Inl err)
  with assms show ?thesis by (simp add: post_query_def)
next
  case (Inr request)
  with assms have a: "fst (query_llm settings e request) = Inr resp"
    and p: "post_query settings e (make_payload q cs co) = query_llm settings e request"
    by (simp_all add: post_query_def)
  from validate_payload [OF Inr] have f: "model request = OPENAI_MODEL_NAME settings"
    "chunk_size request = cs" "chunk_overlap request = co" "QueryRequest.question request = q"
    by simp_all
  from query_llm_answer [OF a] show ?thesis
    by (simp only: p f)
qed

text \<open>
  C9. The payload \<open>evaluate\<close> posts has the keys question, chunk_size and
  chunk_overlap and no others, so no model. The requests \<open>main\<close> posts are an initial
  part of the planned ones, one per chunk size and reference query in the order of the
  loops (all of them unless an exception ends the run); each has these three keys, the
  overlap 50 and one of the chunk sizes 256, 512 and 1024. A request model that
  accepts such a payload takes the configured model name for its model. The endpoint,
  given such a payload, constructs the language model with no other model name than the
  configured one; and when it returns a response, the answer is the string of the
  result of the query engine built on the language model that was constructed with the
  configured model name, with the chunk size and overlap of the payload. This holds
  for the payload of every request \<open>main\<close> posts.
\<close>

theorem harness_payload_has_no_model:
  "keys (make_payload q cs co) = [''question'', ''chunk_size'', ''chunk_overlap'']
   \<and> (\<exists>n. snd (main h) = take n (planned_requests [256, 512, 1024] TEST_QUERIES))
   \<and> (\<forall>(endpoint, payload) \<in> set (snd (main h)).
         keys payload = [''question'', ''chunk_size'', ''chunk_overlap'']
         \<and> map_of payload ''model'' = None
         \<and> map_of payload ''chunk_overlap'' = Some (JInt 50)
         \<and> (\<exists>c \<in> {256, 512, 1024}. map_of payload ''chunk_size'' = Some (JInt c)))
   \<and> (validate_QueryRequest settings e (make_payload q cs co) = Inr request \<longrightarrow>
         model request = OPENAI_MODEL_NAME settings)
   \<and> (\<forall>m. OpenAI_init m \<in> set (snd (post_query settings e (make_payload q cs co))) \<longrightarrow>
         m = OPENAI_MODEL_NAME settings)
   \<and> (\<forall>resp. fst (post_query settings e (make_payload q cs co)) = Inr resp \<longrightarrow>
         (\<exists>documents llm svc_ctx index query_engine result.
              load_data e (DOCUMENT_DIR settings) = Returns documents
            \<and> OpenAI e (OPENAI_MODEL_NAME settings) = Returns llm
            \<and> from_defaults e llm cs co = Returns svc_ctx
            \<and> from_documents e documents svc_ctx = Returns index
            \<and> as_query_engine e index = Returns query_engine
            \<and> query e query_engine q = Returns result
            \<and> str_of e result = Returns (answer resp))
         \<and> snd (post_query settings e (make_payload q cs co)) =
             [Load_data (DOCUMENT_DIR settings), OpenAI_init (OPENAI_MODEL_NAME settings),
              ServiceContext_from_defaults cs co, VectorStoreIndex_from_documents,
              As_query_engine, Query q, Str_of_result])
   \<and> (\<forall>(endpoint, payload) \<in> set (snd (main h)).
         (\<forall>m. OpenAI_init m \<in> set (snd (post_query settings e payload)) \<longrightarrow>
              m = OPENAI_MODEL_NAME settings)
         \<and> (\<forall>resp. fst (post_query settings e payload) = Inr resp \<longrightarrow>
              (\<exists>llm. OpenAI e (OPENAI_MODEL_NAME settings) = Returns llm)
              \<and> OpenAI_init (OPENAI_MODEL_NAME settings)
                   \<in> set (snd (post_query settings e payload))))"
proof -
  have planned: "\<exists>c (tq :: TestQuery). c \<in> {256, 512, 1024}
      \<and> payload = make_payload (question tq) c 50"
    if "(endpoint, payload) \<in> set (snd (main h))" for endpoint payload
  proof -
    obtain n where "snd (main h) = take n (planned_requests [256, 512, 1024] TEST_QUERIES)"
      using main_sent_prefix by blast
    with that have "(endpoint, payload) \<in> set (planned_requests [256, 512, 1024] TEST_QUERIES)"
      by (auto dest: in_set_takeD)
    from planned_requests_payload [OF this] show ?thesis
      by auto
  qed
  have fields: "\<forall>(endpoint, payload) \<in> set (snd (main h)).
         keys payload = [''question'', ''chunk_size'', ''chunk_overlap'']
         \<and> map_of payload ''model'' = None
         \<and> map_of payload ''chunk_overlap'' = Some (JInt 50)
         \<and> (\<exists>c \<in> {256, 512, 1024}. map_of payload ''chunk_size'' = Some (JInt c))"
  proof (intro ballI, clarify)
    fix endpoint payload
    assume "(endpoint, payload) \<in> set (snd (main h))"
    from planned [OF this] obtain c and tq :: TestQuery where
      "c \<in> {256, 512, 1024}" "payload = make_payload (question tq) c 50"
      by blast
    then show "keys payload = [''question'', ''chunk_size'', ''chunk_overlap'']
         \<and> map_of payload ''model'' = None
         \<and> map_of payload ''chunk_overlap'' = Some (JInt 50)
         \<and> (\<exists>c \<in> {256, 512, 1024}. map_of payload ''chunk_size'' = Some (JInt c))"
      by (auto simp: make_payload_fields)
  qed
  have served: "\<forall>(endpoint, payload) \<in> set (snd (main h)).
         (\<forall>m. OpenAI_init m \<in> set (snd (post_query settings e payload)) \<longrightarrow>
              m = OPENAI_MODEL_NAME settings)
         \<and> (\<forall>resp. fst (post_query settings e payload) = Inr resp \<longrightarrow>
              (\<exists>llm. OpenAI e (OPENAI_MODEL_NAME settings) = Returns llm)
              \<and> OpenAI_init (OPENAI_MODEL_NAME settings)
                   \<in> set (snd (post_query settings e payload)))"
  proof (intro ballI, clarify, intro conjI allI impI)
    fix endpoint payload m
    assume "(endpoint, payload) \<in> set (snd (main h))"
      and "OpenAI_init m \<in> set (snd (post_query settings e payload))"
    with planned post_query_payload_models show "m = OPENAI_MODEL_NAME settings"
      by blast
  next
    fix endpoint payload resp
    assume "(endpoint, payload) \<in> set (snd (main h))"
    from planned [OF this] obtain c and tq :: TestQuery where
      p: "payload = make_payload (question tq) c 50"
      by blast
    assume "fst (post_query settings e payload) = Inr resp"
    with p have "fst (post_query settings e (make_payload (question tq) c 50)) = Inr resp"
      by simp
    from post_query_payload_answer [OF this] p
    show "\<exists>llm. OpenAI e (OPENAI_MODEL_NAME settings) = Returns llm"
      and "OpenAI_init (OPENAI_MODEL_NAME settings) \<in> set (snd (post_query settings e payload))"
      by auto
  qed
  have answer: "\<forall>resp. fst (post_query settings e (make_payload q cs co)) = Inr resp \<longrightarrow>
         (\<exists>documents llm svc_ctx index query_engine result.
              load_data e (DOCUMENT_DIR settings) = Returns documents
            \<and> OpenAI e (OPENAI_MODEL_NAME settings) = Returns llm
            \<and> from_defaults e llm cs co = Returns svc_ctx
            \<and> from_documents e documents svc_ctx = Returns index
            \<and> as_query_engine e index = Returns query_engine
            \<and> query e query_engine q = Returns result
            \<and> str_of e result = Returns (answer resp))
         \<and> snd (post_query settings e (make_payload q cs co)) =
             [Load_data (DOCUMENT_DIR settings), OpenAI_init (OPENAI_MODEL_NAME settings),
              ServiceContext_from_defaults cs co, VectorStoreIndex_from_documents,
              As_query_engine, Query q, Str_of_result]"
    using post_query_payload_answer [of settings e q cs co] by blast
  have models: "\<forall>m. OpenAI_init m \<in> set (snd (post_query settings e (make_payload q cs co))) \<longrightarrow>
         m = OPENAI_MODEL_NAME settings"
    using post_query_payload_models [of _ settings e q cs co] by blast
  have default: "validate_QueryRequest settings e (make_payload q cs co) = Inr request \<longrightarrow>
         model request = OPENAI_MODEL_NAME settings"
    by (simp add: payload_default_model)
  from make_payload_fields(1) [of q cs co] main_sent_prefix [of h] fields default models
    answer served
  show ?thesis
    by (intro conjI)
qed

theorem harness_payload_has_no_model_witness:
  "(''http://localhost:8000/query'', make_payload (question (TEST_QUERIES ! 0)) 256 50)
      \<in> set (snd (main (stub_harness Raises (Returns 0))))
   \<and> keys (make_payload (question (TEST_QUERIES ! 0)) 256 50)
       = [''question'', ''chunk_size'', ''chunk_overlap'']
   \<and> map_of (make_payload (question (TEST_QUERIES ! 0)) 256 50) ''model'' = None
   \<and> map_of (make_payload (question (TEST_QUERIES ! 0)) 256 50) ''chunk_overlap'' = Some (JInt 50)
   \<and> validate_QueryRequest default_settings (stub_env (Entry True True) (Returns ''resume''))
        (make_payload ''Where is the candidate studying?'' 512 50) = Inr sample_request
   \<and> model sample_request = OPENAI_MODEL_NAME default_settings
   \<and> fst (post_query default_settings (stub_env (Entry True True) (Returns ''resume''))
          (make_payload ''Where is the candidate studying?'' 512 50))
       = Inr \<lparr>answer = ''resume'', latency = 1\<rparr>
   \<and> snd (post_query default_settings (stub_env (Entry True True) (Returns ''resume''))
          (make_payload ''Where is the candidate studying?'' 512 50))
       = [Load_data ''documents'', OpenAI_init ''gpt-3.5-turbo'',
          ServiceContext_from_defaults 512 50, VectorStoreIndex_from_documents,
          As_query_engine, Query ''Where is the candidate studying?'', Str_of_result]
   \<and> OpenAI_init ''gpt-3.5-turbo''
        \<in> set (snd (post_query default_settings (stub_env (Entry True True) (Returns ''resume''))
                  (make_payload ''Where is the candidate studying?'' 512 50)))
   \<and> ''gpt-3.5-turbo'' = OPENAI_MODEL_NAME default_settings
   \<and> fst (post_query default_settings (stub_env (Entry True True) (Returns ''resume''))
          (make_payload (question (TEST_QUERIES ! 0)) 256 50))
       = Inr \<lparr>answer = ''resume'', latency = 1\<rparr>
   \<and> OpenAI_init (OPENAI_MODEL_NAME default_settings)
        \<in> set (snd (post_query default_settings (stub_env (Entry True True) (Returns ''resume''))
                  (make_payload (question (TEST_QUERIES ! 0)) 256 50)))"
proof -
  let ?h = "stub_harness Raises (Returns 0)"
  let ?e = "stub_env (Entry True True) (Returns ''resume'')"
  let ?p = "make_payload (question (TEST_QUERIES ! 0)) 256 50"
  let ?b = "make_payload ''Where is the candidate studying?'' 512 50"
  note t = harness_payload_has_no_model [of "''Where is the candidate studying?''" 512 50 ?h
      default_settings ?e sample_request]
  have "snd (main ?h) = planned_requests [256, 512, 1024] TEST_QUERIES"
    by (simp only: main_sent for_chunk_sizes_all_fail [OF stub_harness_fails] snd_conv append_Nil)
  also have "\<dots> = planned_requests [256, 512, 1024] [TEST_QUERIES ! 0, TEST_QUERIES ! 1]"
    using TEST_QUERIES_nth by simp
  finally have m: "(''http://localhost:8000/query'', ?p) \<in> set (snd (main ?h))"
    by (simp add: planned_requests_def planned_request_def)
  with t have k: "keys ?p = [''question'', ''chunk_size'', ''chunk_overlap'']
      \<and> map_of ?p ''model'' = None \<and> map_of ?p ''chunk_overlap'' = Some (JInt 50)"
    by blast
  have v: "validate_QueryRequest default_settings ?e ?b = Inr sample_request"
    by (simp add: validate_QueryRequest_def validate_question_def validate_chunk_size_def
        validate_chunk_overlap_def validate_model_def int_field_def str_field_def
        make_payload_def default_settings_def sample_request_def)
  with t have d: "model sample_request = OPENAI_MODEL_NAME default_settings"
    by blast
  have "post_query default_settings ?e ?b = query_llm default_settings ?e sample_request"
    by (simp only: post_query_def v sum.case)
  then have r1: "fst (post_query default_settings ?e ?b) = Inr \<lparr>answer = ''resume'', latency = 1\<rparr>"
    by (simp add: query_llm_def rag_pipeline_def Let_def sample_request_def
        stub_env_def default_settings_def)
  with t have "snd (post_query default_settings ?e ?b) =
      [Load_data (DOCUMENT_DIR default_settings), OpenAI_init (OPENAI_MODEL_NAME default_settings),
       ServiceContext_from_defaults 512 50, VectorStoreIndex_from_documents,
       As_query_engine, Query ''Where is the candidate studying?'', Str_of_result]"
    by blast
  then have l: "snd (post_query default_settings ?e ?b) =
      [Load_data ''documents'', OpenAI_init ''gpt-3.5-turbo'',
       ServiceContext_from_defaults 512 50, VectorStoreIndex_from_documents,
       As_query_engine, Query ''Where is the candidate studying?'', Str_of_result]"
    by (simp add: default_settings_def)
  then have i: "OpenAI_init ''gpt-3.5-turbo'' \<in> set (snd (post_query default_settings ?e ?b))"
    by simp
  with t have n: "''gpt-3.5-turbo'' = OPENAI_MODEL_NAME default_settings"
    by blast
  have "validate_QueryRequest default_settings ?e ?p =
      Inr \<lparr>QueryRequest.question = question (TEST_QUERIES ! 0), chunk_size = 256,
           chunk_overlap = 50, model = ''gpt-3.5-turbo''\<rparr>"
    by (simp add: validate_QueryRequest_def validate_question_def validate_chunk_size_def
        validate_chunk_overlap_def validate_model_def int_field_def str_field_def
        make_payload_def default_settings_def TEST_QUERIES_def)
  then have "post_query default_settings ?e ?p = query_llm default_settings ?e
      \<lparr>QueryRequest.question = question (TEST_QUERIES ! 0), chunk_size = 256,
       chunk_overlap = 50, model = ''gpt-3.5-turbo''\<rparr>"
    by (simp only: post_query_def sum.case)
  then have r2: "fst (post_query default_settings ?e ?p) = Inr \<lparr>answer = ''resume'', latency = 1\<rparr>"
    by (simp add: query_llm_def rag_pipeline_def Let_def stub_env_def default_settings_def)
  with t m have j: "OpenAI_init (OPENAI_MODEL_NAME default_settings)
      \<in> set (snd (post_query default_settings ?e ?p))"
    by blast
  from m k v d r1 l i n r2 j show ?thesis
    by blast
qed

end
